theory Spec2Isabelle
  imports Complex_Main
begin

section \<open>ScrubCam: the function \<open>main\<close> of \<open>scrubcam.py\<close>\<close>

text \<open>
  The program is one function, \<open>main\<close>. After setting up its collaborators it runs a
  \<open>for\<close> loop over the frames of the camera inside a \<open>try\<close> statement whose only
  handler is for \<open>KeyboardInterrupt\<close>. Everything the loop does is a call on a
  collaborator (socket handler, detector, display, radio, the sighting-log file), so the
  model records each call as an effect and returns the list of effects in issue order.
  The construction of the collaborators (lines 59 to 80) comes before the \<open>try\<close>
  statement and is not covered by its handler.
\<close>

subsection \<open>Data\<close>

text \<open>
  A labeled box is a dictionary of which the loop reads the keys \<open>class_name\<close> and
  \<open>confidence\<close>. Confidences and the threshold are compared with \<open>>\<close> only; they are
  modelled as reals (the ordering of the finite floats).
\<close>

record lbox =
  class_name :: string
  confidence :: real

text \<open>The module-level constants read from the YAML file and used by the loop.\<close>

record config =
  RECORD :: bool
  RECORD_CONF_THRESHOLD :: real
  FILTER_CLASSES :: "string list"
  HEADLESS :: bool
  CONNECT_REMOTE_SERVER :: bool
  LORA_ON :: bool

text \<open>
  What the setup reads besides: the two camera constants of the YAML file and the
  \<open>--continue\<close> flag of the command line.
\<close>

record startup =
  CAMERA_RESOLUTION :: "int \<times> int"
  CAMERA_ROTATION :: int
  CONTINUE_RUN :: bool

text \<open>The value of \<open>datetime.now()\<close>, as far as the format string reads it.\<close>

record datetime =
  year :: nat
  month :: nat
  day :: nat
  hour :: nat
  minute :: nat
  second :: nat

text \<open>
  The calls \<open>main\<close> issues, one constructor per call site. \<open>Capture\<close> is the camera
  writing the next frame into the stream (one step of \<open>capture_continuous\<close>);
  \<open>Heartbeat_check\<close> is the call of \<open>send_heartbeat_every_15s\<close> and
  \<open>Send_heartbeat\<close> the heartbeat that call may send.
\<close>

datatype effect =
    Capture
  | Heartbeat_check
  | Send_heartbeat
  | Infer
  | Print_report
  | Display_update "lbox list"
  | Send_image_and_boxes "lbox list"
  | Log_debug string
  | Save_current_frame "lbox list"
  | Lora_send string
  | File_open string string
  | File_write string
  | File_close
  | Stream_seek nat
  | Stream_truncate
  | Log_warning string
  | Socket_close
  | Lora_sender_init
  | Log_info string
  | Detector_init
  | Stream_init
  | Camera_init
  | Camera_set_rotation int
  | Camera_set_resolution "int \<times> int"
  | Socket_connect
  | Send_host_configs "string list" bool
  | State_init nat
  | Display_init

text \<open>What one iteration of the loop reads from the outside world.\<close>

record cycle_input =
  clock :: real
  labeled_boxes :: "lbox list"
  wall :: datetime

subsection \<open>The timestamp\<close>

text \<open>
  \<open>strftime\<close> with the format \<open>%Y-%m-%d %H:%M:%S\<close>: the year in four digits, the
  other fields zero-padded to two.
\<close>

definition digit_char :: "nat \<Rightarrow> char" where
  "digit_char d = ''0123456789'' ! d"

definition pad2 :: "nat \<Rightarrow> string" where
  "pad2 n = [digit_char (n div 10 mod 10), digit_char (n mod 10)]"

definition pad4 :: "nat \<Rightarrow> string" where
  "pad4 n = [digit_char (n div 1000 mod 10), digit_char (n div 100 mod 10),
             digit_char (n div 10 mod 10), digit_char (n mod 10)]"

definition strftime :: "datetime \<Rightarrow> string" where
  "strftime dt = pad4 (year dt) @ ''-'' @ pad2 (month dt) @ ''-'' @ pad2 (day dt) @ '' '' @
                 pad2 (hour dt) @ '':'' @ pad2 (minute dt) @ '':'' @ pad2 (second dt)"

definition valid_datetime :: "datetime \<Rightarrow> bool" where
  "valid_datetime dt =
     (1000 \<le> year dt \<and> year dt \<le> 9999 \<and> 1 \<le> month dt \<and> month dt \<le> 12 \<and>
      1 \<le> day dt \<and> day dt \<le> 31 \<and> hour dt < 24 \<and> minute dt < 60 \<and> second dt < 60)"

definition is_digit :: "char \<Rightarrow> bool" where
  "is_digit c = (c \<in> set ''0123456789'')"

text \<open>The shape \<open>YYYY-MM-DD HH:MM:SS\<close>.\<close>

definition is_timestamp :: "string \<Rightarrow> bool" where
  "is_timestamp s =
     (length s = 19 \<and>
      list_all is_digit (take 4 s) \<and> s ! 4 = CHR ''-'' \<and>
      list_all is_digit (take 2 (drop 5 s)) \<and> s ! 7 = CHR ''-'' \<and>
      list_all is_digit (take 2 (drop 8 s)) \<and> s ! 10 = CHR '' '' \<and>
      list_all is_digit (take 2 (drop 11 s)) \<and> s ! 13 = CHR '':'' \<and>
      list_all is_digit (take 2 (drop 14 s)) \<and> s ! 16 = CHR '':'' \<and>
      list_all is_digit (take 2 (drop 17 s)))"

text \<open>Reading a decimal numeral back, to say which number a field of the timestamp shows.\<close>

definition digit_val :: "char \<Rightarrow> nat" where
  "digit_val c = of_char c - 48"

definition read_decimal :: "string \<Rightarrow> nat" where
  "read_decimal s = foldl (\<lambda>n c. 10 * n + digit_val c) 0 s"

subsection \<open>The decision step (lines 93 to 109)\<close>

definition main_decide :: "config \<Rightarrow> datetime \<Rightarrow> lbox list \<Rightarrow> effect list" where
  "main_decide cfg now lboxes =
     (if length lboxes > 0 then
        (if RECORD cfg \<and> confidence (lboxes ! 0) > RECORD_CONF_THRESHOLD cfg then
           (let detected_classes = map class_name lboxes in
              (if list_ex (\<lambda>itm. itm \<in> set (FILTER_CLASSES cfg)) detected_classes then
                 (if CONNECT_REMOTE_SERVER cfg
                  then [Send_image_and_boxes lboxes, Log_debug ''Image sent'']
                  else []) @
                 [Save_current_frame lboxes] @
                 (if LORA_ON cfg
                  then [Lora_send (''Top-1: '' @ class_name (lboxes ! 0))]
                  else [])
               else []) @
              [File_open ''what_was_seen.log'' ''a+'',
               File_write (strftime now @ '' | '' @ class_name (lboxes ! 0) @ [CHR 0x0A]),
               File_close])
         else [])
      else [])"

subsection \<open>The heartbeat\<close>

text \<open>
  Modelled from the spec: \<open>ClientSocketHandler.send_heartbeat_every_15s\<close> of
  \<open>scrubcam.networking\<close> is not among the sources. The heartbeat timer records the
  time of the last heartbeat; it is due when at least 15 seconds have elapsed since
  then, and sending one records the current time as the new baseline. The function
  takes the time of the last heartbeat and the current clock reading, and returns
  the heartbeats sent and the new baseline.
\<close>

definition send_heartbeat_every_15s :: "real \<Rightarrow> real \<Rightarrow> effect list \<times> real" where
  "send_heartbeat_every_15s prev now =
     (if now - prev \<ge> 15 then ([Send_heartbeat], now) else ([], prev))"

subsection \<open>One iteration (lines 83 to 112) and the loop\<close>

definition main_cycle :: "config \<Rightarrow> real \<Rightarrow> cycle_input \<Rightarrow> effect list \<times> real" where
  "main_cycle cfg prev inp =
     (let (hb, prev') =
            (if CONNECT_REMOTE_SERVER cfg
             then (let (sent, l) = send_heartbeat_every_15s prev (clock inp)
                   in (Heartbeat_check # sent, l))
             else ([], prev));
          lboxes = labeled_boxes inp
      in ([Capture] @ hb @ [Infer, Print_report] @
          (if \<not> HEADLESS cfg then [Display_update lboxes] else []) @
          main_decide cfg (wall inp) lboxes @
          [Stream_seek 0, Stream_truncate],
          prev'))"

fun main_loop :: "config \<Rightarrow> real \<Rightarrow> cycle_input list \<Rightarrow> effect list \<times> real" where
  "main_loop cfg prev [] = ([], prev)"
| "main_loop cfg prev (inp # inps) =
     (let (tr, prev') = main_cycle cfg prev inp;
          (trs, prev'') = main_loop cfg prev' inps
      in (tr @ trs, prev''))"

subsection \<open>The try statement (lines 82 to 116)\<close>

text \<open>
  The iterator of the camera never ends, so the loop is left by an exception only. A run
  is described by the inputs of the iterations that were started, the number \<open>k\<close> of
  calls that completed before the exception was raised, and the exception. An
  exception leaving the \<open>with\<close> statement of the sighting log closes the file first.
  The handler catches \<open>KeyboardInterrupt\<close> and nothing else.
\<close>

datatype exn = KeyboardInterrupt | Other_exception string

datatype outcome = Returned | Unhandled exn

fun file_pending :: "bool \<Rightarrow> effect list \<Rightarrow> bool" where
  "file_pending b [] = b"
| "file_pending b (File_open name mode # es) = file_pending True es"
| "file_pending b (File_close # es) = file_pending False es"
| "file_pending b (e # es) = file_pending b es"

definition main_try ::
  "config \<Rightarrow> real \<Rightarrow> cycle_input list \<Rightarrow> nat \<Rightarrow> exn \<Rightarrow> effect list \<times> outcome" where
  "main_try cfg prev inps k e =
     (let issued = take k (fst (main_loop cfg prev inps));
          unwound = issued @ (if file_pending False issued then [File_close] else [])
      in (case e of
            KeyboardInterrupt \<Rightarrow>
              (unwound @ [Log_warning ''KeyboardInterrupt''] @
                 (if CONNECT_REMOTE_SERVER cfg then [Socket_close] else []),
               Returned)
          | Other_exception s \<Rightarrow> (unwound, Unhandled e)))"

subsection \<open>The setup (lines 59 to 80) and the whole of \<open>main\<close>\<close>

definition main_setup :: "config \<Rightarrow> startup \<Rightarrow> effect list" where
  "main_setup cfg st =
     (if LORA_ON cfg then [Lora_sender_init]
      else [Log_info (''LoRa is ***DISABLED***'' @ [CHR 0x0A, CHR 0x0A])]) @
     [Detector_init, Stream_init, Camera_init,
      Camera_set_rotation (CAMERA_ROTATION st),
      Camera_set_resolution (CAMERA_RESOLUTION st)] @
     (if CONNECT_REMOTE_SERVER cfg
      then [Log_info ''Connecting to server enabled'', Socket_connect,
            Send_host_configs (FILTER_CLASSES cfg) (CONTINUE_RUN st)]
      else [Log_info (''Connecting to ScrubDash server is ***DISABLED***'' @
                      [CHR 0x0A, CHR 0x0A])]) @
     (if \<not> HEADLESS cfg then [State_init 4, Display_init] else [])"

text \<open>
  A run of \<open>main\<close>: \<open>k\<close> is the number of calls of the whole function that
  completed before the exception was raised. While the setup is not complete the
  exception is raised outside the \<open>try\<close> statement and leaves \<open>main\<close> as it is;
  afterwards it is raised inside.
\<close>

definition main ::
  "config \<Rightarrow> startup \<Rightarrow> real \<Rightarrow> cycle_input list \<Rightarrow> nat \<Rightarrow> exn \<Rightarrow> effect list \<times> outcome"
  where
  "main cfg st prev inps k e =
     (let setup = main_setup cfg st
      in if k < length setup then (take k setup, Unhandled e)
         else (let (tr, out) = main_try cfg prev inps (k - length setup) e
               in (setup @ tr, out)))"

subsection \<open>Observing a trace\<close>

fun is_log_line :: "effect \<Rightarrow> bool" where
  "is_log_line (File_write l) = True"
| "is_log_line e = False"

fun is_persist :: "effect \<Rightarrow> bool" where
  "is_persist (Save_current_frame bs) = True"
| "is_persist e = False"

fun is_network_send :: "effect \<Rightarrow> bool" where
  "is_network_send (Send_image_and_boxes bs) = True"
| "is_network_send e = False"

fun is_radio_send :: "effect \<Rightarrow> bool" where
  "is_radio_send (Lora_send m) = True"
| "is_radio_send e = False"

fun is_file_call :: "effect \<Rightarrow> bool" where
  "is_file_call (File_open name mode) = True"
| "is_file_call (File_write l) = True"
| "is_file_call File_close = True"
| "is_file_call e = False"

definition is_observable :: "effect \<Rightarrow> bool" where
  "is_observable e = (is_log_line e \<or> is_persist e \<or> is_network_send e \<or> is_radio_send e)"

text \<open>
  The observable side effects of a trace: how many log lines, persisted frames,
  network sends and radio sends it holds, and the silent calls left out.
\<close>

record observed =
  log_lines :: nat
  persisted :: nat
  network_sends :: nat
  radio_sends :: nat

definition observe :: "effect list \<Rightarrow> observed" where
  "observe tr =
     \<lparr>log_lines = length (filter is_log_line tr),
      persisted = length (filter is_persist tr),
      network_sends = length (filter is_network_send tr),
      radio_sends = length (filter is_radio_send tr)\<rparr>"

text \<open>\<open>issued_before a b tr\<close>: an \<open>a\<close> is issued in \<open>tr\<close> and a \<open>b\<close> after it.\<close>

fun issued_before :: "effect \<Rightarrow> effect \<Rightarrow> effect list \<Rightarrow> bool" where
  "issued_before a b [] = False"
| "issued_before a b (e # es) = ((e = a \<and> b \<in> set es) \<or> issued_before a b es)"

fun is_heartbeat_step :: "effect \<Rightarrow> bool" where
  "is_heartbeat_step Capture = True"
| "is_heartbeat_step Heartbeat_check = True"
| "is_heartbeat_step Send_heartbeat = True"
| "is_heartbeat_step Infer = True"
| "is_heartbeat_step e = False"

subsection \<open>The heartbeat discipline of the specification\<close>

text \<open>
  These definitions follow the specification, not the code. Given the time of the
  previous heartbeat and the clock readings at the start of the cycles,
  \<open>heartbeat_due_spec\<close> says for each cycle whether a heartbeat fires there: it
  fires at a cycle where at least 15 seconds have elapsed since the previous
  heartbeat, and that cycle's reading is the previous heartbeat from then on.
  \<open>heartbeat_clock_spec\<close> is the time of the last heartbeat after all the cycles,
  and \<open>heartbeat_steps_spec\<close> is where the check sits in a cycle: after the capture
  and before inference, with the heartbeat, if it fires, between them.
\<close>

fun heartbeat_due_spec :: "real \<Rightarrow> real list \<Rightarrow> bool list" where
  "heartbeat_due_spec since [] = []"
| "heartbeat_due_spec since (t # ts) =
     (if t - since \<ge> 15 then True # heartbeat_due_spec t ts
      else False # heartbeat_due_spec since ts)"

fun heartbeat_clock_spec :: "real \<Rightarrow> real list \<Rightarrow> real" where
  "heartbeat_clock_spec since [] = since"
| "heartbeat_clock_spec since (t # ts) =
     (if t - since \<ge> 15 then heartbeat_clock_spec t ts else heartbeat_clock_spec since ts)"

definition heartbeat_steps_spec :: "bool \<Rightarrow> effect list" where
  "heartbeat_steps_spec fires =
     [Capture, Heartbeat_check] @ (if fires then [Send_heartbeat] else []) @ [Infer]"

subsection \<open>The reference policy of the specification\<close>

text \<open>
  The three verdicts as the specification words them, and the side effects it gives
  each verdict. These two definitions follow the specification, not the code; the
  first theorem compares them with \<open>main_decide\<close>.
\<close>

datatype verdict = NoAction | LogOnly | LogAndDispatch

definition recording_condition :: "config \<Rightarrow> lbox list \<Rightarrow> bool" where
  "recording_condition cfg lboxes =
     (lboxes \<noteq> [] \<and> RECORD cfg \<and> confidence (hd lboxes) > RECORD_CONF_THRESHOLD cfg)"

definition policy_spec :: "config \<Rightarrow> lbox list \<Rightarrow> verdict" where
  "policy_spec cfg lboxes =
     (if recording_condition cfg lboxes
      then (if set (map class_name lboxes) \<inter> set (FILTER_CLASSES cfg) = {}
            then LogOnly else LogAndDispatch)
      else NoAction)"

fun verdict_effects_spec :: "config \<Rightarrow> verdict \<Rightarrow> observed" where
  "verdict_effects_spec cfg NoAction =
     \<lparr>log_lines = 0, persisted = 0, network_sends = 0, radio_sends = 0\<rparr>"
| "verdict_effects_spec cfg LogOnly =
     \<lparr>log_lines = 1, persisted = 0, network_sends = 0, radio_sends = 0\<rparr>"
| "verdict_effects_spec cfg LogAndDispatch =
     \<lparr>log_lines = 1, persisted = 1,
      network_sends = (if CONNECT_REMOTE_SERVER cfg then 1 else 0),
      radio_sends = (if LORA_ON cfg then 1 else 0)\<rparr>"

section \<open>Properties\<close>

subsection \<open>Auxiliary facts\<close>

lemma recording_condition_nth:
  "recording_condition cfg lboxes \<longleftrightarrow>
     length lboxes > 0 \<and> RECORD cfg \<and> confidence (lboxes ! 0) > RECORD_CONF_THRESHOLD cfg"
  by (cases lboxes) (simp_all add: recording_condition_def)

lemma filter_match_iff:
  "list_ex (\<lambda>itm. itm \<in> set fs) (map class_name lboxes) \<longleftrightarrow>
     set (map class_name lboxes) \<inter> set fs \<noteq> {}"
  by (auto simp: list_ex_iff)

lemma main_decide_no_action:
  "\<not> recording_condition cfg lboxes \<Longrightarrow> main_decide cfg now lboxes = []"
  by (auto simp: main_decide_def recording_condition_nth)

lemma main_decide_log_only:
  "recording_condition cfg lboxes \<Longrightarrow>
   set (map class_name lboxes) \<inter> set (FILTER_CLASSES cfg) = {} \<Longrightarrow>
   main_decide cfg now lboxes =
     [File_open ''what_was_seen.log'' ''a+'',
      File_write (strftime now @ '' | '' @ class_name (lboxes ! 0) @ [CHR 0x0A]),
      File_close]"
  unfolding main_decide_def Let_def filter_match_iff
  by (simp add: recording_condition_nth)

lemma main_decide_dispatch:
  "recording_condition cfg lboxes \<Longrightarrow>
   set (map class_name lboxes) \<inter> set (FILTER_CLASSES cfg) \<noteq> {} \<Longrightarrow>
   main_decide cfg now lboxes =
     (if CONNECT_REMOTE_SERVER cfg
      then [Send_image_and_boxes lboxes, Log_debug ''Image sent''] else []) @
     [Save_current_frame lboxes] @
     (if LORA_ON cfg then [Lora_send (''Top-1: '' @ class_name (lboxes ! 0))] else []) @
     [File_open ''what_was_seen.log'' ''a+'',
      File_write (strftime now @ '' | '' @ class_name (lboxes ! 0) @ [CHR 0x0A]),
      File_close]"
  unfolding main_decide_def Let_def filter_match_iff
  by (simp add: recording_condition_nth)

lemma main_decide_no_capture: "Capture \<notin> set (main_decide cfg now lboxes)"
  by (simp add: main_decide_def Let_def)

lemma main_cycle_trace:
  "fst (main_cycle cfg prev inp) =
     Capture #
     (if CONNECT_REMOTE_SERVER cfg
      then Heartbeat_check # (if clock inp - prev \<ge> 15 then [Send_heartbeat] else [])
      else []) @
     [Infer, Print_report] @
     (if \<not> HEADLESS cfg then [Display_update (labeled_boxes inp)] else []) @
     main_decide cfg (wall inp) (labeled_boxes inp) @
     [Stream_seek 0, Stream_truncate]"
  by (simp add: main_cycle_def send_heartbeat_every_15s_def Let_def)

lemma main_cycle_clock:
  "snd (main_cycle cfg prev inp) =
     (if CONNECT_REMOTE_SERVER cfg \<and> clock inp - prev \<ge> 15 then clock inp else prev)"
  by (simp add: main_cycle_def send_heartbeat_every_15s_def Let_def)

lemma main_loop_Cons:
  "main_loop cfg prev (inp # inps) =
     (fst (main_cycle cfg prev inp) @ fst (main_loop cfg (snd (main_cycle cfg prev inp)) inps),
      snd (main_loop cfg (snd (main_cycle cfg prev inp)) inps))"
  by (simp add: split_beta Let_def)

lemma main_loop_append:
  "main_loop cfg prev (xs @ ys) =
     (fst (main_loop cfg prev xs) @ fst (main_loop cfg (snd (main_loop cfg prev xs)) ys),
      snd (main_loop cfg (snd (main_loop cfg prev xs)) ys))"
proof (induction xs arbitrary: prev)
  case Nil
  show ?case by simp
next
  case (Cons x xs)
  show ?case
    by (simp only: append_Cons main_loop_Cons Cons.IH fst_conv snd_conv append_assoc)
qed

lemma digit_char_cases:
  assumes "d < 10"
  shows "d = 0 \<or> d = 1 \<or> d = 2 \<or> d = 3 \<or> d = 4 \<or> d = 5 \<or> d = 6 \<or> d = 7 \<or> d = 8 \<or> d = (9::nat)"
  using assms by arith

lemma digit_char_is_digit: "d < 10 \<Longrightarrow> is_digit (digit_char d)"
  unfolding is_digit_def digit_char_def by (rule nth_mem) simp

lemma digit_val_digit_char: "d < 10 \<Longrightarrow> digit_val (digit_char d) = d"
  using digit_char_cases [of d] by (auto simp: digit_val_def digit_char_def)

lemma read_pad2: "n < 100 \<Longrightarrow> read_decimal (pad2 n) = n"
proof -
  assume "n < 100"
  then have "n div 10 mod 10 = n div 10" by simp
  then have "10 * (n div 10 mod 10) + n mod 10 = n" by simp
  then show ?thesis
    by (simp add: read_decimal_def pad2_def digit_val_digit_char)
qed

lemma decimal4:
  assumes "n < (10000::nat)"
  shows "10 * (10 * (10 * (n div 1000 mod 10) + n div 100 mod 10) + n div 10 mod 10) + n mod 10 = n"
proof -
  have d1: "n div 100 = n div 10 div 10" by (simp add: div_mult2_eq)
  have d2: "n div 1000 = n div 10 div 10 div 10" by (simp add: div_mult2_eq)
  from assms have "n div 10 div 10 div 10 < 10" by simp
  then have "n div 1000 mod 10 = n div 10 div 10 div 10" by (simp add: d2)
  then show ?thesis
    by (simp add: d1)
qed

lemma read_pad4: "n < 10000 \<Longrightarrow> read_decimal (pad4 n) = n"
  using decimal4 [of n]
  by (simp add: read_decimal_def pad4_def digit_val_digit_char)

lemma strftime_is_timestamp: "is_timestamp (strftime dt)"
  unfolding is_timestamp_def strftime_def
  by (simp add: pad2_def pad4_def digit_char_is_digit)

lemma strftime_fields:
  "take 4 (strftime dt) = pad4 (year dt)"
  "take 2 (drop 5 (strftime dt)) = pad2 (month dt)"
  "take 2 (drop 8 (strftime dt)) = pad2 (day dt)"
  "take 2 (drop 11 (strftime dt)) = pad2 (hour dt)"
  "take 2 (drop 14 (strftime dt)) = pad2 (minute dt)"
  "take 2 (drop 17 (strftime dt)) = pad2 (second dt)"
  by (simp_all add: strftime_def pad2_def pad4_def)

lemma strftime_reads_back:
  assumes "valid_datetime dt"
  shows "read_decimal (take 4 (strftime dt)) = year dt \<and>
         read_decimal (take 2 (drop 5 (strftime dt))) = month dt \<and>
         read_decimal (take 2 (drop 8 (strftime dt))) = day dt \<and>
         read_decimal (take 2 (drop 11 (strftime dt))) = hour dt \<and>
         read_decimal (take 2 (drop 14 (strftime dt))) = minute dt \<and>
         read_decimal (take 2 (drop 17 (strftime dt))) = second dt"
proof -
  from assms have "year dt < 10000" "month dt < 100" "day dt < 100"
    "hour dt < 100" "minute dt < 100" "second dt < 100"
    by (simp_all add: valid_datetime_def)
  then show ?thesis
    by (simp only: strftime_fields read_pad2 read_pad4 simp_thms)
qed

lemma main_decide_no_heartbeat: "Send_heartbeat \<notin> set (main_decide cfg now lboxes)"
  by (simp add: main_decide_def Let_def)

lemma main_decide_no_handler_call:
  "Socket_close \<notin> set (main_decide cfg now lboxes)"
  "Log_warning w \<notin> set (main_decide cfg now lboxes)"
  by (simp_all add: main_decide_def Let_def)

lemma main_loop_no_handler_call:
  "Socket_close \<notin> set (fst (main_loop cfg prev inps))"
  "Log_warning w \<notin> set (fst (main_loop cfg prev inps))"
proof (induction inps arbitrary: prev)
  case Nil
  { case 1 show ?case by simp }
  { case 2 show ?case by simp }
next
  case (Cons inp inps)
  { case 1 show ?case
      by (simp add: main_loop_Cons main_cycle_trace main_decide_no_handler_call Cons.IH(1)
            del: main_loop.simps) }
  { case 2 show ?case
      by (simp add: main_loop_Cons main_cycle_trace main_decide_no_handler_call Cons.IH(2)
            del: main_loop.simps) }
qed

lemma main_loop_not_due:
  assumes "\<forall>inp \<in> set inps. clock inp - prev < 15"
  shows "Send_heartbeat \<notin> set (fst (main_loop cfg prev inps)) \<and>
         snd (main_loop cfg prev inps) = prev"
  using assms
proof (induction inps)
  case Nil
  show ?case by simp
next
  case (Cons inp inps)
  from Cons.prems have nd: "\<not> clock inp - prev \<ge> 15"
    by simp
  from nd have p: "snd (main_cycle cfg prev inp) = prev"
    by (simp add: main_cycle_clock)
  from nd have t: "Send_heartbeat \<notin> set (fst (main_cycle cfg prev inp))"
    by (simp add: main_cycle_trace main_decide_no_heartbeat)
  from Cons.prems have "\<forall>inp \<in> set inps. clock inp - prev < 15"
    by simp
  then have ih: "Send_heartbeat \<notin> set (fst (main_loop cfg prev inps)) \<and>
                 snd (main_loop cfg prev inps) = prev"
    by (rule Cons.IH)
  from p t ih show ?case
    by (simp add: main_loop_Cons del: main_loop.simps)
qed

lemma main_decide_no_heartbeat_check: "Heartbeat_check \<notin> set (main_decide cfg now lboxes)"
  by (simp add: main_decide_def Let_def)

lemma main_loop_single: "fst (main_loop cfg prev [inp]) = fst (main_cycle cfg prev inp)"
  "snd (main_loop cfg prev [inp]) = snd (main_cycle cfg prev inp)"
  by (simp_all add: split_beta)

lemma main_decide_no_heartbeat_step:
  "filter is_heartbeat_step (main_decide cfg now lboxes) = []"
  by (simp add: main_decide_def Let_def)

lemma main_loop_heartbeats:
  assumes "CONNECT_REMOTE_SERVER cfg"
  shows "filter is_heartbeat_step (fst (main_loop cfg prev inps)) =
           concat (map heartbeat_steps_spec (heartbeat_due_spec prev (map clock inps))) \<and>
         snd (main_loop cfg prev inps) = heartbeat_clock_spec prev (map clock inps)"
proof (induction inps arbitrary: prev)
  case Nil
  show ?case by simp
next
  case (Cons inp inps)
  let ?p = "snd (main_cycle cfg prev inp)"
  have c: "?p = (if clock inp - prev \<ge> 15 then clock inp else prev)"
    using assms by (simp add: main_cycle_clock)
  have t: "filter is_heartbeat_step (fst (main_cycle cfg prev inp)) =
             heartbeat_steps_spec (clock inp - prev \<ge> 15)"
    using assms
    by (simp add: main_cycle_trace main_decide_no_heartbeat_step heartbeat_steps_spec_def)
  note ih = Cons.IH [of ?p]
  show ?case
  proof (cases "clock inp - prev \<ge> 15")
    case True
    with c t ih show ?thesis
      by (simp add: main_loop_Cons del: main_loop.simps)
  next
    case False
    with c t ih show ?thesis
      by (simp add: main_loop_Cons del: main_loop.simps)
  qed
qed

subsection \<open>The decision step against the reference policy\<close>

text \<open>
  C1. For every Detection sequence and Configuration the observable side effects of
  the decision step of one cycle are those of the three-verdict reference policy:
  none at all for NoAction (empty sequence, or recording disabled, or top confidence
  not strictly above the threshold), one log line and nothing else for LogOnly
  (recording condition, no detected class in the filter), and one log line, one
  persisted frame, one network send if connected and one radio message if enabled
  for LogAndDispatch (recording condition, some detected class in the filter).
\<close>

theorem main_decide_refines_policy_spec:
  "observe (main_decide cfg now lboxes) = verdict_effects_spec cfg (policy_spec cfg lboxes)"
proof (cases "recording_condition cfg lboxes")
  case False
  then show ?thesis
    by (simp add: main_decide_no_action policy_spec_def observe_def)
next
  case rc: True
  show ?thesis
  proof (cases "set (map class_name lboxes) \<inter> set (FILTER_CLASSES cfg) = {}")
    case True
    with rc show ?thesis
      by (simp add: main_decide_log_only policy_spec_def observe_def)
  next
    case False
    with rc show ?thesis
      by (simp add: main_decide_dispatch policy_spec_def observe_def)
  qed
qed

theorem main_decide_refines_policy_spec_witness:
  "observe (main_decide
      \<lparr>RECORD = True, RECORD_CONF_THRESHOLD = 0.6, FILTER_CLASSES = [''deer'', ''fox''],
       HEADLESS = True, CONNECT_REMOTE_SERVER = True, LORA_ON = True\<rparr>
      \<lparr>year = 2024, month = 5, day = 17, hour = 6, minute = 3, second = 59\<rparr>
      [\<lparr>class_name = ''deer'', confidence = 0.8\<rparr>,
       \<lparr>class_name = ''bird'', confidence = 0.3\<rparr>])
   = \<lparr>log_lines = 1, persisted = 1, network_sends = 1, radio_sends = 1\<rparr>"
  using main_decide_refines_policy_spec
    [of "\<lparr>RECORD = True, RECORD_CONF_THRESHOLD = 0.6, FILTER_CLASSES = [''deer'', ''fox''],
          HEADLESS = True, CONNECT_REMOTE_SERVER = True, LORA_ON = True\<rparr>"
        "\<lparr>year = 2024, month = 5, day = 17, hour = 6, minute = 3, second = 59\<rparr>"
        "[\<lparr>class_name = ''deer'', confidence = 0.8\<rparr>,
          \<lparr>class_name = ''bird'', confidence = 0.3\<rparr>]"]
  by (simp add: policy_spec_def recording_condition_def)

text \<open>
  C2. The recording gate is a strict greater-than: for every non-empty Detection
  sequence whose top detection has a confidence equal to the threshold, the decision
  step issues no call at all (no log line, no persisted frame, no network send, no
  radio send), and the reference policy says NoAction.
\<close>

theorem main_decide_threshold_equal:
  assumes "length lboxes > 0"
    and "confidence (lboxes ! 0) = RECORD_CONF_THRESHOLD cfg"
  shows "main_decide cfg now lboxes = [] \<and> policy_spec cfg lboxes = NoAction"
proof -
  from assms have "\<not> recording_condition cfg lboxes"
    by (simp add: recording_condition_nth)
  then show ?thesis
    by (simp add: main_decide_no_action policy_spec_def)
qed

theorem main_decide_threshold_equal_witness:
  "main_decide
      \<lparr>RECORD = True, RECORD_CONF_THRESHOLD = 0.6, FILTER_CLASSES = [''deer'', ''fox''],
       HEADLESS = True, CONNECT_REMOTE_SERVER = True, LORA_ON = True\<rparr>
      \<lparr>year = 2024, month = 5, day = 17, hour = 6, minute = 3, second = 59\<rparr>
      [\<lparr>class_name = ''deer'', confidence = 0.6\<rparr>] = []"
  using main_decide_threshold_equal
    [of "[\<lparr>class_name = ''deer'', confidence = 0.6\<rparr>]"
        "\<lparr>RECORD = True, RECORD_CONF_THRESHOLD = 0.6, FILTER_CLASSES = [''deer'', ''fox''],
          HEADLESS = True, CONNECT_REMOTE_SERVER = True, LORA_ON = True\<rparr>"
        "\<lparr>year = 2024, month = 5, day = 17, hour = 6, minute = 3, second = 59\<rparr>"]
  by simp

text \<open>
  C3. The sighting log is gated by the recording condition only: in every cycle whose
  Detection sequence is non-empty, with recording enabled and the top confidence
  strictly above the threshold, but with no detected class name in the filter,
  the decision step opens the log, appends exactly one entry and closes it, and
  issues no network send, no frame persistence and no radio send.
\<close>

theorem main_decide_log_without_filter_match:
  assumes "length lboxes > 0"
    and "RECORD cfg"
    and "confidence (lboxes ! 0) > RECORD_CONF_THRESHOLD cfg"
    and "\<forall>b \<in> set lboxes. class_name b \<notin> set (FILTER_CLASSES cfg)"
  shows "main_decide cfg now lboxes =
           [File_open ''what_was_seen.log'' ''a+'',
            File_write (strftime now @ '' | '' @ class_name (lboxes ! 0) @ [CHR 0x0A]),
            File_close]
         \<and> observe (main_decide cfg now lboxes) =
           \<lparr>log_lines = 1, persisted = 0, network_sends = 0, radio_sends = 0\<rparr>"
proof -
  from assms(1-3) have rc: "recording_condition cfg lboxes"
    by (simp add: recording_condition_nth)
  from assms(4) have "set (map class_name lboxes) \<inter> set (FILTER_CLASSES cfg) = {}"
    by auto
  with rc show ?thesis
    by (simp add: main_decide_log_only observe_def)
qed

theorem main_decide_log_without_filter_match_witness:
  "observe (main_decide
      \<lparr>RECORD = True, RECORD_CONF_THRESHOLD = 0.6, FILTER_CLASSES = [''deer'', ''fox''],
       HEADLESS = True, CONNECT_REMOTE_SERVER = True, LORA_ON = True\<rparr>
      \<lparr>year = 2024, month = 5, day = 17, hour = 6, minute = 3, second = 59\<rparr>
      [\<lparr>class_name = ''bird'', confidence = 0.9\<rparr>])
   = \<lparr>log_lines = 1, persisted = 0, network_sends = 0, radio_sends = 0\<rparr>"
  using main_decide_log_without_filter_match
    [of "[\<lparr>class_name = ''bird'', confidence = 0.9\<rparr>]"
        "\<lparr>RECORD = True, RECORD_CONF_THRESHOLD = 0.6, FILTER_CLASSES = [''deer'', ''fox''],
          HEADLESS = True, CONNECT_REMOTE_SERVER = True, LORA_ON = True\<rparr>"
        "\<lparr>year = 2024, month = 5, day = 17, hour = 6, minute = 3, second = 59\<rparr>"]
  by (simp add: observe_def)

subsection \<open>Order of the side effects\<close>

text \<open>
  C4, as stated. The claim has the sighting-log entry first, then the persisted frame,
  then the network send, then the radio message. On the example of the
  specification (deer 0.8, bird 0.3, filter deer and fox, connected, radio on) the
  log line is not issued before the frame is persisted: it comes last, and the
  network send comes before the persistence, not after it.
\<close>

theorem main_decide_log_first_counterexample:
  "\<not> issued_before
       (File_write (''2024-05-17 06:03:59 | deer'' @ [CHR 0x0A]))
       (Save_current_frame [\<lparr>class_name = ''deer'', confidence = 0.8\<rparr>,
                            \<lparr>class_name = ''bird'', confidence = 0.3\<rparr>])
       (main_decide
          \<lparr>RECORD = True, RECORD_CONF_THRESHOLD = 0.6, FILTER_CLASSES = [''deer'', ''fox''],
           HEADLESS = True, CONNECT_REMOTE_SERVER = True, LORA_ON = True\<rparr>
          \<lparr>year = 2024, month = 5, day = 17, hour = 6, minute = 3, second = 59\<rparr>
          [\<lparr>class_name = ''deer'', confidence = 0.8\<rparr>,
           \<lparr>class_name = ''bird'', confidence = 0.3\<rparr>])
   \<and> main_decide
          \<lparr>RECORD = True, RECORD_CONF_THRESHOLD = 0.6, FILTER_CLASSES = [''deer'', ''fox''],
           HEADLESS = True, CONNECT_REMOTE_SERVER = True, LORA_ON = True\<rparr>
          \<lparr>year = 2024, month = 5, day = 17, hour = 6, minute = 3, second = 59\<rparr>
          [\<lparr>class_name = ''deer'', confidence = 0.8\<rparr>,
           \<lparr>class_name = ''bird'', confidence = 0.3\<rparr>]
      = [Send_image_and_boxes [\<lparr>class_name = ''deer'', confidence = 0.8\<rparr>,
                               \<lparr>class_name = ''bird'', confidence = 0.3\<rparr>],
         Log_debug ''Image sent'',
         Save_current_frame [\<lparr>class_name = ''deer'', confidence = 0.8\<rparr>,
                             \<lparr>class_name = ''bird'', confidence = 0.3\<rparr>],
         Lora_send ''Top-1: deer'',
         File_open ''what_was_seen.log'' ''a+'',
         File_write (''2024-05-17 06:03:59 | deer'' @ [CHR 0x0A]),
         File_close]"
  by (simp add: main_decide_def strftime_def pad4_def pad2_def digit_char_def)

text \<open>
  C4, amended. In every cycle where the recording condition holds and some detected
  class name is in the filter, the observable side effects of the decision step
  are, in this order: the network send (if connected), the frame persistence, the
  radio message (if the radio is enabled), and last the sighting-log entry.
\<close>

theorem main_decide_dispatch_order:
  assumes "length lboxes > 0"
    and "RECORD cfg"
    and "confidence (lboxes ! 0) > RECORD_CONF_THRESHOLD cfg"
    and "\<exists>b \<in> set lboxes. class_name b \<in> set (FILTER_CLASSES cfg)"
  shows "filter is_observable (main_decide cfg now lboxes) =
           (if CONNECT_REMOTE_SERVER cfg then [Send_image_and_boxes lboxes] else []) @
           [Save_current_frame lboxes] @
           (if LORA_ON cfg then [Lora_send (''Top-1: '' @ class_name (lboxes ! 0))] else []) @
           [File_write (strftime now @ '' | '' @ class_name (lboxes ! 0) @ [CHR 0x0A])]"
proof -
  from assms(1-3) have rc: "recording_condition cfg lboxes"
    by (simp add: recording_condition_nth)
  from assms(4) have "set (map class_name lboxes) \<inter> set (FILTER_CLASSES cfg) \<noteq> {}"
    by auto
  with rc show ?thesis
    by (simp add: main_decide_dispatch is_observable_def)
qed

theorem main_decide_dispatch_order_witness:
  "filter is_observable (main_decide
      \<lparr>RECORD = True, RECORD_CONF_THRESHOLD = 0.6, FILTER_CLASSES = [''deer'', ''fox''],
       HEADLESS = True, CONNECT_REMOTE_SERVER = True, LORA_ON = True\<rparr>
      \<lparr>year = 2024, month = 5, day = 17, hour = 6, minute = 3, second = 59\<rparr>
      [\<lparr>class_name = ''deer'', confidence = 0.8\<rparr>,
       \<lparr>class_name = ''bird'', confidence = 0.3\<rparr>])
   = [Send_image_and_boxes [\<lparr>class_name = ''deer'', confidence = 0.8\<rparr>,
                            \<lparr>class_name = ''bird'', confidence = 0.3\<rparr>],
      Save_current_frame [\<lparr>class_name = ''deer'', confidence = 0.8\<rparr>,
                          \<lparr>class_name = ''bird'', confidence = 0.3\<rparr>],
      Lora_send ''Top-1: deer'',
      File_write (''2024-05-17 06:03:59 | deer'' @ [CHR 0x0A])]"
  using main_decide_dispatch_order
    [of "[\<lparr>class_name = ''deer'', confidence = 0.8\<rparr>,
          \<lparr>class_name = ''bird'', confidence = 0.3\<rparr>]"
        "\<lparr>RECORD = True, RECORD_CONF_THRESHOLD = 0.6, FILTER_CLASSES = [''deer'', ''fox''],
          HEADLESS = True, CONNECT_REMOTE_SERVER = True, LORA_ON = True\<rparr>"
        "\<lparr>year = 2024, month = 5, day = 17, hour = 6, minute = 3, second = 59\<rparr>"]
  by (simp add: strftime_def pad4_def pad2_def digit_char_def)

text \<open>
  C5. Within every dispatching cycle the network send to the collector (when
  connected) is issued before the frame is persisted, and the radio message (when
  enabled) after the persistence. And every side effect of cycle N is issued before
  the capture of cycle N+1: the trace up to the end of cycle N, which ends with the
  decision step of cycle N and the reset of the stream, is followed by the capture
  of cycle N+1, the only capture in what remains.
\<close>

theorem main_send_persist_radio_then_next_capture:
  "(length lboxes > 0 \<and> RECORD cfg \<and> confidence (lboxes ! 0) > RECORD_CONF_THRESHOLD cfg \<and>
    (\<exists>b \<in> set lboxes. class_name b \<in> set (FILTER_CLASSES cfg)) \<longrightarrow>
      (CONNECT_REMOTE_SERVER cfg \<longrightarrow>
         issued_before (Send_image_and_boxes lboxes) (Save_current_frame lboxes)
           (main_decide cfg now lboxes) \<and>
         \<not> issued_before (Save_current_frame lboxes) (Send_image_and_boxes lboxes)
           (main_decide cfg now lboxes)) \<and>
      (LORA_ON cfg \<longrightarrow>
         issued_before (Save_current_frame lboxes)
           (Lora_send (''Top-1: '' @ class_name (lboxes ! 0))) (main_decide cfg now lboxes) \<and>
         \<not> issued_before (Lora_send (''Top-1: '' @ class_name (lboxes ! 0)))
           (Save_current_frame lboxes) (main_decide cfg now lboxes)))
   \<and> (\<exists>pre post.
        fst (main_loop cfg prev (inps @ [a])) =
          pre @ main_decide cfg (wall a) (labeled_boxes a) @ [Stream_seek 0, Stream_truncate] \<and>
        fst (main_loop cfg prev (inps @ [a, b])) =
          fst (main_loop cfg prev (inps @ [a])) @ Capture # post \<and>
        Capture \<notin> set post)"
proof (intro conjI impI)
  assume d: "length lboxes > 0 \<and> RECORD cfg \<and>
             confidence (lboxes ! 0) > RECORD_CONF_THRESHOLD cfg \<and>
             (\<exists>b \<in> set lboxes. class_name b \<in> set (FILTER_CLASSES cfg))"
  then have rc: "recording_condition cfg lboxes"
    by (simp add: recording_condition_nth)
  from d have m: "set (map class_name lboxes) \<inter> set (FILTER_CLASSES cfg) \<noteq> {}"
    by auto
  note tr = main_decide_dispatch [OF rc m]
  {
    assume "CONNECT_REMOTE_SERVER cfg"
    then show "issued_before (Send_image_and_boxes lboxes) (Save_current_frame lboxes)
                 (main_decide cfg now lboxes)"
      by (simp add: tr)
  }
  {
    assume "CONNECT_REMOTE_SERVER cfg"
    then show "\<not> issued_before (Save_current_frame lboxes) (Send_image_and_boxes lboxes)
                 (main_decide cfg now lboxes)"
      by (simp add: tr)
  }
  {
    assume "LORA_ON cfg"
    then show "issued_before (Save_current_frame lboxes)
                 (Lora_send (''Top-1: '' @ class_name (lboxes ! 0))) (main_decide cfg now lboxes)"
      by (simp add: tr)
  }
  {
    assume "LORA_ON cfg"
    then show "\<not> issued_before (Lora_send (''Top-1: '' @ class_name (lboxes ! 0)))
                 (Save_current_frame lboxes) (main_decide cfg now lboxes)"
      by (simp add: tr)
  }
next
  let ?p = "snd (main_loop cfg prev inps)"
  let ?q = "snd (main_loop cfg prev (inps @ [a]))"
  let ?pre = "fst (main_loop cfg prev inps) @
              Capture #
              (if CONNECT_REMOTE_SERVER cfg
               then Heartbeat_check # (if clock a - ?p \<ge> 15 then [Send_heartbeat] else [])
               else []) @
              [Infer, Print_report] @
              (if \<not> HEADLESS cfg then [Display_update (labeled_boxes a)] else [])"
  let ?post = "tl (fst (main_cycle cfg ?q b))"
  have one: "fst (main_loop cfg p [x]) = fst (main_cycle cfg p x)" for p x
    by (simp add: split_beta)
  have A: "fst (main_loop cfg prev (inps @ [a])) =
             ?pre @ main_decide cfg (wall a) (labeled_boxes a) @ [Stream_seek 0, Stream_truncate]"
    by (simp add: main_loop_append one main_cycle_trace)
  have "inps @ [a, b] = (inps @ [a]) @ [b]"
    by simp
  then have "fst (main_loop cfg prev (inps @ [a, b])) =
               fst (main_loop cfg prev (inps @ [a])) @ fst (main_cycle cfg ?q b)"
    by (simp only: main_loop_append one fst_conv)
  moreover have "fst (main_cycle cfg ?q b) = Capture # ?post"
    by (simp add: main_cycle_trace)
  ultimately have B: "fst (main_loop cfg prev (inps @ [a, b])) =
                        fst (main_loop cfg prev (inps @ [a])) @ Capture # ?post"
    by simp
  have C: "Capture \<notin> set ?post"
    by (simp add: main_cycle_trace main_decide_no_capture)
  from A B C show "\<exists>pre post.
        fst (main_loop cfg prev (inps @ [a])) =
          pre @ main_decide cfg (wall a) (labeled_boxes a) @ [Stream_seek 0, Stream_truncate] \<and>
        fst (main_loop cfg prev (inps @ [a, b])) =
          fst (main_loop cfg prev (inps @ [a])) @ Capture # post \<and>
        Capture \<notin> set post"
    by blast
qed

theorem main_send_persist_radio_then_next_capture_witness:
  "issued_before
     (Send_image_and_boxes [\<lparr>class_name = ''deer'', confidence = 0.8\<rparr>])
     (Save_current_frame [\<lparr>class_name = ''deer'', confidence = 0.8\<rparr>])
     (main_decide
        \<lparr>RECORD = True, RECORD_CONF_THRESHOLD = 0.6, FILTER_CLASSES = [''deer'', ''fox''],
         HEADLESS = True, CONNECT_REMOTE_SERVER = True, LORA_ON = True\<rparr>
        \<lparr>year = 2024, month = 5, day = 17, hour = 6, minute = 3, second = 59\<rparr>
        [\<lparr>class_name = ''deer'', confidence = 0.8\<rparr>])
   \<and> issued_before
     (Save_current_frame [\<lparr>class_name = ''deer'', confidence = 0.8\<rparr>])
     (Lora_send ''Top-1: deer'')
     (main_decide
        \<lparr>RECORD = True, RECORD_CONF_THRESHOLD = 0.6, FILTER_CLASSES = [''deer'', ''fox''],
         HEADLESS = True, CONNECT_REMOTE_SERVER = True, LORA_ON = True\<rparr>
        \<lparr>year = 2024, month = 5, day = 17, hour = 6, minute = 3, second = 59\<rparr>
        [\<lparr>class_name = ''deer'', confidence = 0.8\<rparr>])"
  using main_send_persist_radio_then_next_capture
    [where lboxes = "[\<lparr>class_name = ''deer'', confidence = 0.8\<rparr>]"
       and cfg = "\<lparr>RECORD = True, RECORD_CONF_THRESHOLD = 0.6,
                   FILTER_CLASSES = [''deer'', ''fox''],
                   HEADLESS = True, CONNECT_REMOTE_SERVER = True, LORA_ON = True\<rparr>"
       and now = "\<lparr>year = 2024, month = 5, day = 17, hour = 6, minute = 3, second = 59\<rparr>"
       and prev = 0 and inps = "[]"
       and a = "\<lparr>clock = 1, labeled_boxes = [],
                 wall = \<lparr>year = 2024, month = 5, day = 17, hour = 6, minute = 3, second = 59\<rparr>\<rparr>"
       and b = "\<lparr>clock = 2, labeled_boxes = [],
                 wall = \<lparr>year = 2024, month = 5, day = 17, hour = 6, minute = 4, second = 0\<rparr>\<rparr>"]
  by simp

subsection \<open>What is sent and what is written\<close>

text \<open>
  C8. Whenever radio alerting is enabled and a dispatching cycle occurs (recording
  condition, some detected class in the filter), the cycle transmits exactly one
  radio message, and it is the string \<open>Top-1: \<close> followed by the class name of the
  detection at index 0, and nothing else.
\<close>

theorem main_cycle_radio_message:
  assumes "LORA_ON cfg"
    and "length (labeled_boxes inp) > 0"
    and "RECORD cfg"
    and "confidence (labeled_boxes inp ! 0) > RECORD_CONF_THRESHOLD cfg"
    and "\<exists>b \<in> set (labeled_boxes inp). class_name b \<in> set (FILTER_CLASSES cfg)"
  shows "filter is_radio_send (fst (main_cycle cfg prev inp)) =
           [Lora_send (''Top-1: '' @ class_name (labeled_boxes inp ! 0))]"
proof -
  from assms(2-4) have rc: "recording_condition cfg (labeled_boxes inp)"
    by (simp add: recording_condition_nth)
  from assms(5)
  have "set (map class_name (labeled_boxes inp)) \<inter> set (FILTER_CLASSES cfg) \<noteq> {}"
    by auto
  with rc assms(1) show ?thesis
    by (simp add: main_cycle_trace main_decide_dispatch)
qed

theorem main_cycle_radio_message_witness:
  "filter is_radio_send (fst (main_cycle
      \<lparr>RECORD = True, RECORD_CONF_THRESHOLD = 0.6, FILTER_CLASSES = [''deer'', ''fox''],
       HEADLESS = True, CONNECT_REMOTE_SERVER = True, LORA_ON = True\<rparr>
      0
      \<lparr>clock = 20,
       labeled_boxes = [\<lparr>class_name = ''deer'', confidence = 0.8\<rparr>,
                        \<lparr>class_name = ''bird'', confidence = 0.3\<rparr>],
       wall = \<lparr>year = 2024, month = 5, day = 17, hour = 6, minute = 3, second = 59\<rparr>\<rparr>))
   = [Lora_send ''Top-1: deer'']"
  using main_cycle_radio_message
    [where cfg = "\<lparr>RECORD = True, RECORD_CONF_THRESHOLD = 0.6,
                    FILTER_CLASSES = [''deer'', ''fox''],
                    HEADLESS = True, CONNECT_REMOTE_SERVER = True, LORA_ON = True\<rparr>"
       and prev = 0
       and inp = "\<lparr>clock = 20,
                   labeled_boxes = [\<lparr>class_name = ''deer'', confidence = 0.8\<rparr>,
                                    \<lparr>class_name = ''bird'', confidence = 0.3\<rparr>],
                   wall = \<lparr>year = 2024, month = 5, day = 17,
                           hour = 6, minute = 3, second = 59\<rparr>\<rparr>"]
  by simp

text \<open>
  C9. The decision step touches the sighting log in qualifying cycles only (non-empty
  sequence, recording enabled, top confidence strictly above the threshold), and
  then it opens \<open>what_was_seen.log\<close> in append mode, writes exactly one line and
  closes the file. The line is the timestamp, the separator \<open> | \<close>, the class name
  of the top detection and a newline. The timestamp has the shape
  \<open>YYYY-MM-DD HH:MM:SS\<close>, and its six fields show the year, month, day, hour,
  minute and second of the current time.
\<close>

theorem main_decide_sighting_log_line:
  "filter is_file_call (main_decide cfg now lboxes) =
     (if length lboxes > 0 \<and> RECORD cfg \<and>
         confidence (lboxes ! 0) > RECORD_CONF_THRESHOLD cfg
      then [File_open ''what_was_seen.log'' ''a+'',
            File_write (strftime now @ '' | '' @ class_name (lboxes ! 0) @ [CHR 0x0A]),
            File_close]
      else [])
   \<and> is_timestamp (strftime now)
   \<and> (valid_datetime now \<longrightarrow>
        read_decimal (take 4 (strftime now)) = year now \<and>
        read_decimal (take 2 (drop 5 (strftime now))) = month now \<and>
        read_decimal (take 2 (drop 8 (strftime now))) = day now \<and>
        read_decimal (take 2 (drop 11 (strftime now))) = hour now \<and>
        read_decimal (take 2 (drop 14 (strftime now))) = minute now \<and>
        read_decimal (take 2 (drop 17 (strftime now))) = second now)"
proof (intro conjI impI)
  show "filter is_file_call (main_decide cfg now lboxes) =
     (if length lboxes > 0 \<and> RECORD cfg \<and>
         confidence (lboxes ! 0) > RECORD_CONF_THRESHOLD cfg
      then [File_open ''what_was_seen.log'' ''a+'',
            File_write (strftime now @ '' | '' @ class_name (lboxes ! 0) @ [CHR 0x0A]),
            File_close]
      else [])"
  proof (cases "recording_condition cfg lboxes")
    case False
    then show ?thesis
      by (simp add: main_decide_no_action) (simp add: recording_condition_nth)
  next
    case rc: True
    then have c: "length lboxes > 0 \<and> RECORD cfg \<and>
                  confidence (lboxes ! 0) > RECORD_CONF_THRESHOLD cfg"
      by (simp add: recording_condition_nth)
    show ?thesis
    proof (cases "set (map class_name lboxes) \<inter> set (FILTER_CLASSES cfg) = {}")
      case True
      with rc c show ?thesis
        by (simp add: main_decide_log_only)
    next
      case False
      with rc c show ?thesis
        by (simp add: main_decide_dispatch)
    qed
  qed
next
  show "is_timestamp (strftime now)"
    by (rule strftime_is_timestamp)
next
  assume v: "valid_datetime now"
  note rb = strftime_reads_back [OF v]
  from rb show "read_decimal (take 4 (strftime now)) = year now" by blast
  from rb show "read_decimal (take 2 (drop 5 (strftime now))) = month now" by blast
  from rb show "read_decimal (take 2 (drop 8 (strftime now))) = day now" by blast
  from rb show "read_decimal (take 2 (drop 11 (strftime now))) = hour now" by blast
  from rb show "read_decimal (take 2 (drop 14 (strftime now))) = minute now" by blast
  from rb show "read_decimal (take 2 (drop 17 (strftime now))) = second now" by blast
qed

theorem main_decide_sighting_log_line_witness:
  "filter is_file_call (main_decide
      \<lparr>RECORD = True, RECORD_CONF_THRESHOLD = 0.6, FILTER_CLASSES = [''deer'', ''fox''],
       HEADLESS = True, CONNECT_REMOTE_SERVER = True, LORA_ON = True\<rparr>
      \<lparr>year = 2024, month = 5, day = 17, hour = 6, minute = 3, second = 59\<rparr>
      [\<lparr>class_name = ''bird'', confidence = 0.9\<rparr>])
   = [File_open ''what_was_seen.log'' ''a+'',
      File_write (''2024-05-17 06:03:59 | bird'' @ [CHR 0x0A]),
      File_close]
   \<and> valid_datetime \<lparr>year = 2024, month = 5, day = 17, hour = 6, minute = 3, second = 59\<rparr>
   \<and> read_decimal (take 4 ''2024-05-17 06:03:59'') = 2024
   \<and> read_decimal (take 2 (drop 17 ''2024-05-17 06:03:59'')) = 59"
  using main_decide_sighting_log_line
    [of "\<lparr>RECORD = True, RECORD_CONF_THRESHOLD = 0.6, FILTER_CLASSES = [''deer'', ''fox''],
          HEADLESS = True, CONNECT_REMOTE_SERVER = True, LORA_ON = True\<rparr>"
        "\<lparr>year = 2024, month = 5, day = 17, hour = 6, minute = 3, second = 59\<rparr>"
        "[\<lparr>class_name = ''bird'', confidence = 0.9\<rparr>]"]
  by (simp add: valid_datetime_def strftime_def pad4_def pad2_def digit_char_def)

text \<open>
  C10. The class named in the log line and in the radio message is always that of
  the top detection, which need not be in the filter: in every cycle where the
  recording condition holds, the class of the top detection is not in the filter
  and that of some other detection is, the frame is still dispatched (persisted,
  and sent to the collector if connected), and the one log line and the one radio
  message (if the radio is enabled) name the class of the top detection.
\<close>

theorem main_decide_names_top_class:
  assumes "length lboxes > 0"
    and "RECORD cfg"
    and "confidence (lboxes ! 0) > RECORD_CONF_THRESHOLD cfg"
    and "class_name (lboxes ! 0) \<notin> set (FILTER_CLASSES cfg)"
    and "\<exists>b \<in> set lboxes. class_name b \<in> set (FILTER_CLASSES cfg)"
  shows "filter is_persist (main_decide cfg now lboxes) = [Save_current_frame lboxes]
         \<and> filter is_network_send (main_decide cfg now lboxes) =
             (if CONNECT_REMOTE_SERVER cfg then [Send_image_and_boxes lboxes] else [])
         \<and> filter is_log_line (main_decide cfg now lboxes) =
             [File_write (strftime now @ '' | '' @ class_name (lboxes ! 0) @ [CHR 0x0A])]
         \<and> filter is_radio_send (main_decide cfg now lboxes) =
             (if LORA_ON cfg then [Lora_send (''Top-1: '' @ class_name (lboxes ! 0))] else [])"
proof -
  from assms(1-3) have rc: "recording_condition cfg lboxes"
    by (simp add: recording_condition_nth)
  from assms(5) have "set (map class_name lboxes) \<inter> set (FILTER_CLASSES cfg) \<noteq> {}"
    by auto
  with rc show ?thesis
    by (simp add: main_decide_dispatch)
qed

theorem main_decide_names_top_class_witness:
  "filter is_log_line (main_decide
      \<lparr>RECORD = True, RECORD_CONF_THRESHOLD = 0.6, FILTER_CLASSES = [''deer'', ''fox''],
       HEADLESS = True, CONNECT_REMOTE_SERVER = True, LORA_ON = True\<rparr>
      \<lparr>year = 2024, month = 5, day = 17, hour = 6, minute = 3, second = 59\<rparr>
      [\<lparr>class_name = ''bird'', confidence = 0.9\<rparr>,
       \<lparr>class_name = ''deer'', confidence = 0.5\<rparr>])
   = [File_write (''2024-05-17 06:03:59 | bird'' @ [CHR 0x0A])]
   \<and> filter is_radio_send (main_decide
      \<lparr>RECORD = True, RECORD_CONF_THRESHOLD = 0.6, FILTER_CLASSES = [''deer'', ''fox''],
       HEADLESS = True, CONNECT_REMOTE_SERVER = True, LORA_ON = True\<rparr>
      \<lparr>year = 2024, month = 5, day = 17, hour = 6, minute = 3, second = 59\<rparr>
      [\<lparr>class_name = ''bird'', confidence = 0.9\<rparr>,
       \<lparr>class_name = ''deer'', confidence = 0.5\<rparr>])
   = [Lora_send ''Top-1: bird'']"
  using main_decide_names_top_class
    [of "[\<lparr>class_name = ''bird'', confidence = 0.9\<rparr>,
          \<lparr>class_name = ''deer'', confidence = 0.5\<rparr>]"
        "\<lparr>RECORD = True, RECORD_CONF_THRESHOLD = 0.6, FILTER_CLASSES = [''deer'', ''fox''],
          HEADLESS = True, CONNECT_REMOTE_SERVER = True, LORA_ON = True\<rparr>"
        "\<lparr>year = 2024, month = 5, day = 17, hour = 6, minute = 3, second = 59\<rparr>"]
  by (simp add: strftime_def pad4_def pad2_def digit_char_def)

subsection \<open>Heartbeat\<close>

text \<open>
  C6. With a remote connection configured, every cycle performs the heartbeat check
  right after the capture and before inference, and nowhere else. A heartbeat is sent,
  and the clock reset to the current reading, exactly when at least 15 seconds have
  elapsed since the previous heartbeat. So over a run whose cycles before cycle \<open>k\<close>
  were all started less than 15 seconds after the previous heartbeat and whose cycle
  \<open>k\<close> is started 15 seconds or more after it, no heartbeat is sent before cycle
  \<open>k\<close>, cycle \<open>k\<close> sends one before its inference, and the clock then holds the
  reading of cycle \<open>k\<close>. Over the whole run the baseline is carried from cycle to
  cycle: the captures, heartbeat checks, heartbeats and inferences of the trace are,
  cycle by cycle, those of the heartbeat discipline of the specification, which
  fires in a cycle exactly when 15 seconds or more have elapsed since the cycle of
  the previous heartbeat, and the clock after the run is the time of the last
  heartbeat. The clock readings are arbitrary, so this holds however long any
  inference call took.
\<close>

theorem main_heartbeat_first_due_cycle:
  assumes "CONNECT_REMOTE_SERVER cfg"
  shows "(\<exists>rest. fst (main_cycle cfg prev inp) =
            Capture # Heartbeat_check #
            (if clock inp - prev \<ge> 15 then [Send_heartbeat] else []) @ Infer # rest \<and>
            Heartbeat_check \<notin> set rest \<and> Send_heartbeat \<notin> set rest)
       \<and> snd (main_cycle cfg prev inp) = (if clock inp - prev \<ge> 15 then clock inp else prev)
       \<and> (k < length inps \<and> (\<forall>i \<in> set (take k inps). clock i - prev < 15) \<and>
          clock (inps ! k) - prev \<ge> 15 \<longrightarrow>
            Send_heartbeat \<notin> set (fst (main_loop cfg prev (take k inps))) \<and>
            (\<exists>post. fst (main_loop cfg prev (take (Suc k) inps)) =
               fst (main_loop cfg prev (take k inps)) @
               [Capture, Heartbeat_check, Send_heartbeat, Infer] @ post \<and>
               Send_heartbeat \<notin> set post) \<and>
            snd (main_loop cfg prev (take (Suc k) inps)) = clock (inps ! k))
       \<and> filter is_heartbeat_step (fst (main_loop cfg prev inps)) =
           concat (map heartbeat_steps_spec (heartbeat_due_spec prev (map clock inps)))
       \<and> snd (main_loop cfg prev inps) = heartbeat_clock_spec prev (map clock inps)"
proof (intro conjI impI)
  let ?rest = "\<lambda>x::cycle_input. Print_report #
                 (if \<not> HEADLESS cfg then [Display_update (labeled_boxes x)] else []) @
                 main_decide cfg (wall x) (labeled_boxes x) @
                 [Stream_seek 0, Stream_truncate]"
  have shape: "fst (main_cycle cfg p x) =
                 Capture # Heartbeat_check #
                 (if clock x - p \<ge> 15 then [Send_heartbeat] else []) @ Infer # ?rest x" for p x
    using assms by (simp add: main_cycle_trace)
  have quiet: "Heartbeat_check \<notin> set (?rest x) \<and> Send_heartbeat \<notin> set (?rest x)" for x
    by (simp add: main_decide_no_heartbeat main_decide_no_heartbeat_check)
  from shape [of prev inp] quiet [of inp]
  show "\<exists>rest. fst (main_cycle cfg prev inp) =
            Capture # Heartbeat_check #
            (if clock inp - prev \<ge> 15 then [Send_heartbeat] else []) @ Infer # rest \<and>
            Heartbeat_check \<notin> set rest \<and> Send_heartbeat \<notin> set rest"
    by blast
  from assms
  show "snd (main_cycle cfg prev inp) = (if clock inp - prev \<ge> 15 then clock inp else prev)"
    by (simp add: main_cycle_clock)
  {
    assume h: "k < length inps \<and> (\<forall>i \<in> set (take k inps). clock i - prev < 15) \<and>
               clock (inps ! k) - prev \<ge> 15"
    then have nd: "Send_heartbeat \<notin> set (fst (main_loop cfg prev (take k inps))) \<and>
                   snd (main_loop cfg prev (take k inps)) = prev"
      by (simp add: main_loop_not_due)
    from nd show "Send_heartbeat \<notin> set (fst (main_loop cfg prev (take k inps)))"
      by simp
    from h have split: "take (Suc k) inps = take k inps @ [inps ! k]"
      by (simp add: take_Suc_conv_app_nth)
    from h have due: "clock (inps ! k) - prev \<ge> 15"
      by simp
    have tr: "fst (main_loop cfg prev (take (Suc k) inps)) =
                fst (main_loop cfg prev (take k inps)) @ fst (main_cycle cfg prev (inps ! k))"
      by (simp only: split main_loop_append main_loop_single nd fst_conv)
    have "fst (main_cycle cfg prev (inps ! k)) =
            [Capture, Heartbeat_check, Send_heartbeat, Infer] @ ?rest (inps ! k)"
      using shape [of prev "inps ! k"] due by simp
    with tr quiet [of "inps ! k"]
    show "\<exists>post. fst (main_loop cfg prev (take (Suc k) inps)) =
               fst (main_loop cfg prev (take k inps)) @
               [Capture, Heartbeat_check, Send_heartbeat, Infer] @ post \<and>
               Send_heartbeat \<notin> set post"
      by metis
    have "snd (main_loop cfg prev (take (Suc k) inps)) = snd (main_cycle cfg prev (inps ! k))"
      by (simp only: split main_loop_append main_loop_single nd snd_conv)
    with due assms show "snd (main_loop cfg prev (take (Suc k) inps)) = clock (inps ! k)"
      by (simp add: main_cycle_clock)
  }
  note whole = main_loop_heartbeats [OF assms, of prev inps]
  from whole
  show "filter is_heartbeat_step (fst (main_loop cfg prev inps)) =
          concat (map heartbeat_steps_spec (heartbeat_due_spec prev (map clock inps)))"
    by (rule conjunct1)
  from whole
  show "snd (main_loop cfg prev inps) = heartbeat_clock_spec prev (map clock inps)"
    by (rule conjunct2)
qed

theorem main_heartbeat_first_due_cycle_witness:
  "Send_heartbeat \<notin> set (fst (main_loop
      \<lparr>RECORD = True, RECORD_CONF_THRESHOLD = 0.6, FILTER_CLASSES = [''deer'', ''fox''],
       HEADLESS = True, CONNECT_REMOTE_SERVER = True, LORA_ON = True\<rparr>
      0
      (take 2
        [\<lparr>clock = 5, labeled_boxes = [],
          wall = \<lparr>year = 2024, month = 5, day = 17, hour = 6, minute = 3, second = 5\<rparr>\<rparr>,
         \<lparr>clock = 12, labeled_boxes = [],
          wall = \<lparr>year = 2024, month = 5, day = 17, hour = 6, minute = 3, second = 12\<rparr>\<rparr>,
         \<lparr>clock = 32, labeled_boxes = [],
          wall = \<lparr>year = 2024, month = 5, day = 17, hour = 6, minute = 3, second = 32\<rparr>\<rparr>,
         \<lparr>clock = 33, labeled_boxes = [],
          wall = \<lparr>year = 2024, month = 5, day = 17, hour = 6, minute = 3, second = 33\<rparr>\<rparr>,
         \<lparr>clock = 47, labeled_boxes = [],
          wall = \<lparr>year = 2024, month = 5, day = 17, hour = 6, minute = 3, second = 47\<rparr>\<rparr>])))
   \<and> snd (main_loop
      \<lparr>RECORD = True, RECORD_CONF_THRESHOLD = 0.6, FILTER_CLASSES = [''deer'', ''fox''],
       HEADLESS = True, CONNECT_REMOTE_SERVER = True, LORA_ON = True\<rparr>
      0
      (take (Suc 2)
        [\<lparr>clock = 5, labeled_boxes = [],
          wall = \<lparr>year = 2024, month = 5, day = 17, hour = 6, minute = 3, second = 5\<rparr>\<rparr>,
         \<lparr>clock = 12, labeled_boxes = [],
          wall = \<lparr>year = 2024, month = 5, day = 17, hour = 6, minute = 3, second = 12\<rparr>\<rparr>,
         \<lparr>clock = 32, labeled_boxes = [],
          wall = \<lparr>year = 2024, month = 5, day = 17, hour = 6, minute = 3, second = 32\<rparr>\<rparr>,
         \<lparr>clock = 33, labeled_boxes = [],
          wall = \<lparr>year = 2024, month = 5, day = 17, hour = 6, minute = 3, second = 33\<rparr>\<rparr>,
         \<lparr>clock = 47, labeled_boxes = [],
          wall = \<lparr>year = 2024, month = 5, day = 17, hour = 6, minute = 3, second = 47\<rparr>\<rparr>]))
     = 32
   \<and> filter is_heartbeat_step (fst (main_loop
      \<lparr>RECORD = True, RECORD_CONF_THRESHOLD = 0.6, FILTER_CLASSES = [''deer'', ''fox''],
       HEADLESS = True, CONNECT_REMOTE_SERVER = True, LORA_ON = True\<rparr>
      0
        [\<lparr>clock = 5, labeled_boxes = [],
          wall = \<lparr>year = 2024, month = 5, day = 17, hour = 6, minute = 3, second = 5\<rparr>\<rparr>,
         \<lparr>clock = 12, labeled_boxes = [],
          wall = \<lparr>year = 2024, month = 5, day = 17, hour = 6, minute = 3, second = 12\<rparr>\<rparr>,
         \<lparr>clock = 32, labeled_boxes = [],
          wall = \<lparr>year = 2024, month = 5, day = 17, hour = 6, minute = 3, second = 32\<rparr>\<rparr>,
         \<lparr>clock = 33, labeled_boxes = [],
          wall = \<lparr>year = 2024, month = 5, day = 17, hour = 6, minute = 3, second = 33\<rparr>\<rparr>,
         \<lparr>clock = 47, labeled_boxes = [],
          wall = \<lparr>year = 2024, month = 5, day = 17, hour = 6, minute = 3, second = 47\<rparr>\<rparr>]))
     = [Capture, Heartbeat_check, Infer,
        Capture, Heartbeat_check, Infer,
        Capture, Heartbeat_check, Send_heartbeat, Infer,
        Capture, Heartbeat_check, Infer,
        Capture, Heartbeat_check, Send_heartbeat, Infer]
   \<and> snd (main_loop
      \<lparr>RECORD = True, RECORD_CONF_THRESHOLD = 0.6, FILTER_CLASSES = [''deer'', ''fox''],
       HEADLESS = True, CONNECT_REMOTE_SERVER = True, LORA_ON = True\<rparr>
      0
        [\<lparr>clock = 5, labeled_boxes = [],
          wall = \<lparr>year = 2024, month = 5, day = 17, hour = 6, minute = 3, second = 5\<rparr>\<rparr>,
         \<lparr>clock = 12, labeled_boxes = [],
          wall = \<lparr>year = 2024, month = 5, day = 17, hour = 6, minute = 3, second = 12\<rparr>\<rparr>,
         \<lparr>clock = 32, labeled_boxes = [],
          wall = \<lparr>year = 2024, month = 5, day = 17, hour = 6, minute = 3, second = 32\<rparr>\<rparr>,
         \<lparr>clock = 33, labeled_boxes = [],
          wall = \<lparr>year = 2024, month = 5, day = 17, hour = 6, minute = 3, second = 33\<rparr>\<rparr>,
         \<lparr>clock = 47, labeled_boxes = [],
          wall = \<lparr>year = 2024, month = 5, day = 17, hour = 6, minute = 3, second = 47\<rparr>\<rparr>])
     = 47"
  using main_heartbeat_first_due_cycle
    [where cfg = "\<lparr>RECORD = True, RECORD_CONF_THRESHOLD = 0.6, FILTER_CLASSES = [''deer'', ''fox''],
       HEADLESS = True, CONNECT_REMOTE_SERVER = True, LORA_ON = True\<rparr>"
       and prev = 0 and k = 2
       and inp = "\<lparr>clock = 5, labeled_boxes = [],
          wall = \<lparr>year = 2024, month = 5, day = 17, hour = 6, minute = 3, second = 5\<rparr>\<rparr>"
       and inps = "[\<lparr>clock = 5, labeled_boxes = [],
          wall = \<lparr>year = 2024, month = 5, day = 17, hour = 6, minute = 3, second = 5\<rparr>\<rparr>,
         \<lparr>clock = 12, labeled_boxes = [],
          wall = \<lparr>year = 2024, month = 5, day = 17, hour = 6, minute = 3, second = 12\<rparr>\<rparr>,
         \<lparr>clock = 32, labeled_boxes = [],
          wall = \<lparr>year = 2024, month = 5, day = 17, hour = 6, minute = 3, second = 32\<rparr>\<rparr>,
         \<lparr>clock = 33, labeled_boxes = [],
          wall = \<lparr>year = 2024, month = 5, day = 17, hour = 6, minute = 3, second = 33\<rparr>\<rparr>,
         \<lparr>clock = 47, labeled_boxes = [],
          wall = \<lparr>year = 2024, month = 5, day = 17, hour = 6, minute = 3, second = 47\<rparr>\<rparr>]"]
  by (simp add: heartbeat_steps_spec_def)

subsection \<open>Cancellation and other failures\<close>

lemma main_setup_no_handler_call:
  "Socket_close \<notin> set (main_setup cfg st)"
  "Log_warning w \<notin> set (main_setup cfg st)"
  by (simp_all add: main_setup_def)

lemma main_try_outcome:
  "(\<exists>closing. set closing \<subseteq> {File_close} \<and>
      main_try cfg prev inps k KeyboardInterrupt =
        (take k (fst (main_loop cfg prev inps)) @ closing @
           [Log_warning ''KeyboardInterrupt''] @
           (if CONNECT_REMOTE_SERVER cfg then [Socket_close] else []),
         Returned) \<and>
      fst (main_try cfg prev inps k (Other_exception s)) =
        take k (fst (main_loop cfg prev inps)) @ closing)
   \<and> snd (main_try cfg prev inps k (Other_exception s)) = Unhandled (Other_exception s)
   \<and> Socket_close \<notin> set (fst (main_try cfg prev inps k (Other_exception s)))
   \<and> Log_warning w \<notin> set (fst (main_try cfg prev inps k (Other_exception s)))"
proof -
  let ?issued = "take k (fst (main_loop cfg prev inps))"
  let ?closing = "if file_pending False ?issued then [File_close] else []"
  have ki: "main_try cfg prev inps k KeyboardInterrupt =
              (?issued @ ?closing @ [Log_warning ''KeyboardInterrupt''] @
                 (if CONNECT_REMOTE_SERVER cfg then [Socket_close] else []),
               Returned)"
    by (simp add: main_try_def Let_def)
  have ot: "main_try cfg prev inps k (Other_exception s) =
              (?issued @ ?closing, Unhandled (Other_exception s))"
    by (simp add: main_try_def Let_def)
  have cl: "set ?closing \<subseteq> {File_close}"
    by (cases "file_pending False ?issued") simp_all
  have "set ?issued \<subseteq> set (fst (main_loop cfg prev inps))"
    by (rule set_take_subset)
  then have quiet: "Socket_close \<notin> set ?issued" "Log_warning w \<notin> set ?issued"
    using main_loop_no_handler_call(1) [of cfg prev inps]
      main_loop_no_handler_call(2) [of w cfg prev inps] by blast+
  have first: "\<exists>closing. set closing \<subseteq> {File_close} \<and>
      main_try cfg prev inps k KeyboardInterrupt =
        (?issued @ closing @ [Log_warning ''KeyboardInterrupt''] @
           (if CONNECT_REMOTE_SERVER cfg then [Socket_close] else []),
         Returned) \<and>
      fst (main_try cfg prev inps k (Other_exception s)) = ?issued @ closing"
    using ki ot cl by (intro exI [of _ ?closing]) simp
  have second: "snd (main_try cfg prev inps k (Other_exception s)) = Unhandled (Other_exception s)"
    by (simp add: ot)
  have third: "Socket_close \<notin> set (fst (main_try cfg prev inps k (Other_exception s)))"
    using quiet(1) by (simp add: ot)
  have fourth: "Log_warning w \<notin> set (fst (main_try cfg prev inps k (Other_exception s)))"
    using quiet(2) by (simp add: ot)
  from first second third fourth show ?thesis
    by blast
qed

text \<open>
  C7, as stated. The claim lets the cancellation signal arrive between any two steps
  of execution. With a remote connection configured, a \<open>KeyboardInterrupt\<close> raised
  when eight calls of the setup have completed (the connection to the server is
  open, the host configuration is not yet sent) is raised before the \<open>try\<close>
  statement: it leaves \<open>main\<close> unhandled, no warning is logged and the connection
  is not closed.
\<close>

theorem main_cancellation_in_setup_counterexample:
  "main
      \<lparr>RECORD = True, RECORD_CONF_THRESHOLD = 0.6, FILTER_CLASSES = [''deer'', ''fox''],
       HEADLESS = True, CONNECT_REMOTE_SERVER = True, LORA_ON = True\<rparr>
      \<lparr>CAMERA_RESOLUTION = (1280, 720), CAMERA_ROTATION = 0, CONTINUE_RUN = False\<rparr>
      0 [] 8 KeyboardInterrupt
   = ([Lora_sender_init, Detector_init, Stream_init, Camera_init,
       Camera_set_rotation 0, Camera_set_resolution (1280, 720),
       Log_info ''Connecting to server enabled'', Socket_connect],
      Unhandled KeyboardInterrupt)"
  by (simp add: main_def main_setup_def)

text \<open>
  C7, amended. On the cancellation signal arriving between any two steps of the
  capture loop, that is once the setup is complete and the \<open>try\<close> statement
  entered, the program issues no further call of the loop, logs the warning, closes
  the remote connection if one is configured, and returns from \<open>main\<close> without
  re-raising. Every other exception, wherever it is raised, is not caught: the
  outcome is that exception, unhandled, and neither the warning nor the close of the
  connection is issued. The calls before the handler are the setup and the first
  calls of the loop, followed at most by the close of the sighting log that the
  \<open>with\<close> statement performs when the exception leaves it.
\<close>

theorem main_cancellation_in_loop:
  "(length (main_setup cfg st) \<le> k \<longrightarrow>
      (\<exists>closing. set closing \<subseteq> {File_close} \<and>
         main cfg st prev inps k KeyboardInterrupt =
           (main_setup cfg st @
            take (k - length (main_setup cfg st)) (fst (main_loop cfg prev inps)) @ closing @
              [Log_warning ''KeyboardInterrupt''] @
              (if CONNECT_REMOTE_SERVER cfg then [Socket_close] else []),
            Returned) \<and>
         fst (main cfg st prev inps k (Other_exception s)) =
           main_setup cfg st @
           take (k - length (main_setup cfg st)) (fst (main_loop cfg prev inps)) @ closing))
   \<and> snd (main cfg st prev inps k (Other_exception s)) = Unhandled (Other_exception s)
   \<and> Socket_close \<notin> set (fst (main cfg st prev inps k (Other_exception s)))
   \<and> Log_warning w \<notin> set (fst (main cfg st prev inps k (Other_exception s)))"
proof (cases "k < length (main_setup cfg st)")
  case early: True
  then have m: "main cfg st prev inps k (Other_exception s) =
                  (take k (main_setup cfg st), Unhandled (Other_exception s))"
    by (simp add: main_def Let_def)
  have "set (take k (main_setup cfg st)) \<subseteq> set (main_setup cfg st)"
    by (rule set_take_subset)
  then have "Socket_close \<notin> set (take k (main_setup cfg st))"
    and "Log_warning w \<notin> set (take k (main_setup cfg st))"
    using main_setup_no_handler_call(1) [of cfg st]
      main_setup_no_handler_call(2) [of w cfg st] by blast+
  with early m show ?thesis
    by simp
next
  case late: False
  let ?j = "k - length (main_setup cfg st)"
  have m: "main cfg st prev inps k e =
             (main_setup cfg st @ fst (main_try cfg prev inps ?j e),
              snd (main_try cfg prev inps ?j e))" for e
    using late by (simp add: main_def Let_def split_beta)
  note inner = main_try_outcome [of cfg prev inps ?j s w]
  from inner obtain closing where
    cl: "set closing \<subseteq> {File_close}"
    and ki: "main_try cfg prev inps ?j KeyboardInterrupt =
               (take ?j (fst (main_loop cfg prev inps)) @ closing @
                  [Log_warning ''KeyboardInterrupt''] @
                  (if CONNECT_REMOTE_SERVER cfg then [Socket_close] else []),
                Returned)"
    and ot: "fst (main_try cfg prev inps ?j (Other_exception s)) =
               take ?j (fst (main_loop cfg prev inps)) @ closing"
    by blast
  have first: "\<exists>closing. set closing \<subseteq> {File_close} \<and>
         main cfg st prev inps k KeyboardInterrupt =
           (main_setup cfg st @ take ?j (fst (main_loop cfg prev inps)) @ closing @
              [Log_warning ''KeyboardInterrupt''] @
              (if CONNECT_REMOTE_SERVER cfg then [Socket_close] else []),
            Returned) \<and>
         fst (main cfg st prev inps k (Other_exception s)) =
           main_setup cfg st @ take ?j (fst (main_loop cfg prev inps)) @ closing"
    using cl ki ot by (intro exI [of _ closing]) (simp add: m)
  from inner
  have second: "snd (main cfg st prev inps k (Other_exception s)) = Unhandled (Other_exception s)"
    by (simp add: m)
  from inner
  have third: "Socket_close \<notin> set (fst (main cfg st prev inps k (Other_exception s)))"
    by (simp add: m main_setup_no_handler_call)
  from inner
  have fourth: "Log_warning w \<notin> set (fst (main cfg st prev inps k (Other_exception s)))"
    by (simp add: m main_setup_no_handler_call)
  from first second third fourth show ?thesis
    by blast
qed

theorem main_cancellation_in_loop_witness:
  "main
      \<lparr>RECORD = True, RECORD_CONF_THRESHOLD = 0.6, FILTER_CLASSES = [''deer'', ''fox''],
       HEADLESS = True, CONNECT_REMOTE_SERVER = True, LORA_ON = True\<rparr>
      \<lparr>CAMERA_RESOLUTION = (1280, 720), CAMERA_ROTATION = 0, CONTINUE_RUN = False\<rparr>
      0
      [\<lparr>clock = 20, labeled_boxes = [\<lparr>class_name = ''deer'', confidence = 0.8\<rparr>],
        wall = \<lparr>year = 2024, month = 5, day = 17, hour = 6, minute = 3, second = 59\<rparr>\<rparr>]
      19 KeyboardInterrupt
   = ([Lora_sender_init, Detector_init, Stream_init, Camera_init,
       Camera_set_rotation 0, Camera_set_resolution (1280, 720),
       Log_info ''Connecting to server enabled'', Socket_connect,
       Send_host_configs [''deer'', ''fox''] False,
       Capture, Heartbeat_check, Send_heartbeat, Infer, Print_report,
       Send_image_and_boxes [\<lparr>class_name = ''deer'', confidence = 0.8\<rparr>],
       Log_debug ''Image sent'',
       Save_current_frame [\<lparr>class_name = ''deer'', confidence = 0.8\<rparr>],
       Lora_send ''Top-1: deer'',
       File_open ''what_was_seen.log'' ''a+'',
       File_close,
       Log_warning ''KeyboardInterrupt'',
       Socket_close],
      Returned)
   \<and> snd (main
      \<lparr>RECORD = True, RECORD_CONF_THRESHOLD = 0.6, FILTER_CLASSES = [''deer'', ''fox''],
       HEADLESS = True, CONNECT_REMOTE_SERVER = True, LORA_ON = True\<rparr>
      \<lparr>CAMERA_RESOLUTION = (1280, 720), CAMERA_ROTATION = 0, CONTINUE_RUN = False\<rparr>
      0
      [\<lparr>clock = 20, labeled_boxes = [\<lparr>class_name = ''deer'', confidence = 0.8\<rparr>],
        wall = \<lparr>year = 2024, month = 5, day = 17, hour = 6, minute = 3, second = 59\<rparr>\<rparr>]
      19 (Other_exception ''OSError''))
     = Unhandled (Other_exception ''OSError'')"
  using main_cancellation_in_loop
    [where cfg = "\<lparr>RECORD = True, RECORD_CONF_THRESHOLD = 0.6, FILTER_CLASSES = [''deer'', ''fox''],
       HEADLESS = True, CONNECT_REMOTE_SERVER = True, LORA_ON = True\<rparr>"
       and st = "\<lparr>CAMERA_RESOLUTION = (1280, 720), CAMERA_ROTATION = 0, CONTINUE_RUN = False\<rparr>"
       and prev = 0 and k = 19 and s = "''OSError''" and w = "''KeyboardInterrupt''"
       and inps = "[\<lparr>clock = 20, labeled_boxes = [\<lparr>class_name = ''deer'', confidence = 0.8\<rparr>],
        wall = \<lparr>year = 2024, month = 5, day = 17, hour = 6, minute = 3, second = 59\<rparr>\<rparr>]"]
  by (simp add: main_def main_setup_def main_try_def main_cycle_def
      send_heartbeat_every_15s_def main_decide_def Let_def)

end
